theory Spec2Isabelle
  imports Complex_Main
begin

section \<open>Python strings and POSIX paths\<close>

text \<open>
  Python strings are modelled as \<^typ>\<open>string\<close>, one \<^typ>\<open>char\<close> per code point, so
  the model covers the code points 0 to 255 (ASCII and Latin-1). On that range
  \<open>str.lower\<close> moves A-Z and the Latin-1 capitals, and the case-insensitive
  match of an ASCII literal pattern is the comparison of the lowered characters.
\<close>

definition lower_char :: "char \<Rightarrow> char" where
  "lower_char c =
     (let n = (of_char c :: nat)
      in if (65 \<le> n \<and> n \<le> 90) \<or> (192 \<le> n \<and> n \<le> 222 \<and> n \<noteq> 215)
         then char_of (n + 32) else c)"

definition lower :: "string \<Rightarrow> string" where
  "lower s = map lower_char s"

text \<open>\<open>s.startswith(p)\<close>.\<close>

fun startswith :: "string \<Rightarrow> string \<Rightarrow> bool" where
  "startswith s [] = True"
| "startswith [] (p # ps) = False"
| "startswith (c # cs) (p # ps) = (c = p \<and> startswith cs ps)"

text \<open>\<open>s.endswith(p)\<close>.\<close>

definition endswith :: "string \<Rightarrow> string \<Rightarrow> bool" where
  "endswith s p = startswith (rev s) (rev p)"

text \<open>\<open>p in s\<close> for strings: \<open>p\<close> occurs in \<open>s\<close> as a contiguous block.\<close>

fun contains :: "string \<Rightarrow> string \<Rightarrow> bool" where
  "contains [] p = (p = [])"
| "contains (c # cs) p = (startswith (c # cs) p \<or> contains cs p)"

text \<open>
  \<open>re.search(pattern, s, re.IGNORECASE)\<close> for a pattern that denotes one literal
  text \<open>lit\<close> (every pattern of the path denylist is an escaped literal).
\<close>

definition re_search_literal_ci :: "string \<Rightarrow> string \<Rightarrow> bool" where
  "re_search_literal_ci lit s = contains (lower s) (lower lit)"

text \<open>\<open>s.split(sep)\<close> for a one-character separator: never the empty list.\<close>

fun split_sep :: "char \<Rightarrow> string \<Rightarrow> string list" where
  "split_sep sep [] = [[]]"
| "split_sep sep (c # cs) =
     (if c = sep then [] # split_sep sep cs
      else (case split_sep sep cs of
              [] \<Rightarrow> [[c]]
            | w # ws \<Rightarrow> (c # w) # ws))"

text \<open>\<open>sep.join(comps)\<close>.\<close>

fun join_sep :: "string \<Rightarrow> string list \<Rightarrow> string" where
  "join_sep sep [] = []"
| "join_sep sep [w] = w"
| "join_sep sep (w # v # ws) = w @ sep @ join_sep sep (v # ws)"

text \<open>
  The loop of \<open>posixpath.normpath\<close> over the components, \<open>new_comps\<close> being the
  accumulator: empty and \<open>.\<close> components are skipped, a \<open>..\<close> pops the last
  component unless there is none to pop (then it is kept on a relative path and
  dropped on an absolute one) or the last one is itself \<open>..\<close>.
\<close>

fun normpath_comps :: "bool \<Rightarrow> string list \<Rightarrow> string list \<Rightarrow> string list" where
  "normpath_comps initial_slashes new_comps [] = new_comps"
| "normpath_comps initial_slashes new_comps (cmp # comps) =
     (if cmp = [] \<or> cmp = ''.'' then normpath_comps initial_slashes new_comps comps
      else if cmp \<noteq> ''..'' \<or> (\<not> initial_slashes \<and> new_comps = [])
                \<or> (new_comps \<noteq> [] \<and> last new_comps = ''..'')
      then normpath_comps initial_slashes (new_comps @ [cmp]) comps
      else if new_comps \<noteq> [] then normpath_comps initial_slashes (butlast new_comps) comps
      else normpath_comps initial_slashes new_comps comps)"

text \<open>\<open>posixpath.normpath\<close>: one or two leading slashes are kept, three or more are one.\<close>

definition normpath :: "string \<Rightarrow> string" where
  "normpath path =
     (if path = [] then ''.''
      else
        let initial_slashes =
              (if startswith path ''/''
               then (if startswith path ''//'' \<and> \<not> startswith path ''///'' then 2 else 1)
               else (0::nat));
            comps = normpath_comps (initial_slashes \<noteq> 0) [] (split_sep CHR ''/'' path);
            p = replicate initial_slashes CHR ''/'' @ join_sep ''/'' comps
        in if p = [] then ''.'' else p)"

text \<open>\<open>posixpath.join(a, b)\<close> with one second argument.\<close>

definition os_path_join :: "string \<Rightarrow> string \<Rightarrow> string" where
  "os_path_join a b =
     (if startswith b ''/'' \<or> a = [] then b
      else if endswith a ''/'' then a @ b
      else a @ ''/'' @ b)"

text \<open>\<open>posixpath.abspath\<close>, the current directory \<open>cwd\<close> being explicit.\<close>

definition abspath :: "string \<Rightarrow> string \<Rightarrow> string" where
  "abspath cwd path =
     normpath (if startswith path ''/'' then path else os_path_join cwd path)"

text \<open>
  \<open>Path(p).name\<close> of \<open>pathlib\<close> on POSIX: the last component that is neither empty
  nor \<open>.\<close>, the empty string when there is none.
\<close>

definition path_name :: "string \<Rightarrow> string" where
  "path_name p =
     (case rev (filter (\<lambda>w. w \<noteq> [] \<and> w \<noteq> ''.'') (split_sep CHR ''/'' p)) of
        [] \<Rightarrow> []
      | w # _ \<Rightarrow> w)"

text \<open>
  \<open>Path(p).suffix\<close> (Python up to 3.13): with \<open>i\<close> the index of the last dot of the
  name, the suffix is \<open>name[i:]\<close> when \<open>0 < i < len(name) - 1\<close> and empty otherwise.
\<close>

definition path_suffix :: "string \<Rightarrow> string" where
  "path_suffix p =
     (let name = path_name p;
          after = takeWhile (\<lambda>c. c \<noteq> CHR ''.'') (rev name)
      in if length after = length name then []
         else
           let i = length name - length after - 1
           in if 0 < i \<and> i + 1 < length name then drop i name else [])"

text \<open>
  \<open>Path(p).resolve()\<close> on a file system without symbolic links: the normalised
  absolute path, with one leading slash (\<open>os.path.realpath\<close> walks the path from
  the root \<open>/\<close>, so the double slash that \<open>normpath\<close> keeps is gone).
\<close>

definition resolve :: "string \<Rightarrow> string \<Rightarrow> string" where
  "resolve cwd p = (let n = abspath cwd p in if startswith n ''//'' then tl n else n)"

section \<open>The security gate: \<open>tools/safety_callbacks.py\<close>\<close>

datatype severity = Info | Warning | Error

text \<open>
  The issue texts of the validator. \<open>DangerousPathPattern lit\<close> stands for
  "Dangerous path pattern detected: <pattern>", \<open>lit\<close> being the literal text the
  pattern denotes; \<open>OutsideProject\<close> for "Path is outside project directory";
  \<open>SensitiveFileType ext\<close> for "Sensitive file type: <ext>";
  \<open>DangerousOperation op\<close> for "Potentially dangerous operation: <op>";
  \<open>ContentVeryLarge\<close> for "Content is very large (>1MB)";
  \<open>SuspiciousQueryPattern p\<close> for "Suspicious pattern in query: <pattern>".
\<close>

datatype issue =
    DangerousPathPattern string
  | OutsideProject
  | SensitiveFileType string
  | DangerousOperation string
  | ContentVeryLarge
  | SuspiciousQueryPattern string

record SecurityValidator =
  project_root :: string

text \<open>\<open>SecurityValidator.__init__\<close>: the root is resolved once.\<close>

definition SecurityValidator_init :: "string \<Rightarrow> string \<Rightarrow> SecurityValidator" where
  "SecurityValidator_init cwd root_dir = \<lparr>project_root = resolve cwd root_dir\<rparr>"

text \<open>The literals denoted by the ten patterns of \<open>self.dangerous_paths\<close>, in order.\<close>

definition dangerous_paths :: "string list" where
  "dangerous_paths =
     [''../'', ''/etc/'', ''/var/'', ''/usr/'', ''/bin/'', ''/sbin/'',
      ''~/.ssh'', ''~/.aws'', ''/proc/'', ''/sys/'']"

definition dangerous_operations :: "string list" where
  "dangerous_operations =
     [''rm -rf'', ''sudo'', ''chmod 777'', ''>/dev/null'', ''2>&1'', ''exec('',
      ''eval('', ''__import__'', ''subprocess'', ''os.system'']"

definition sensitive_extensions :: "string list" where
  "sensitive_extensions =
     [''.sh'', ''.bat'', ''.exe'', ''.dll'', ''.so'', ''.key'', ''.pem'', ''.p12'',
      ''.pfx'', ''.env'', ''.config'']"

record path_verdict =
  pv_valid :: bool
  pv_severity :: severity
  pv_issues :: "issue list"
  pv_file_path :: string

text \<open>
  \<open>SecurityValidator.validate_file_path\<close>. The three checks run in the source's
  order on the pair (issues, severity). For a string argument \<open>os.path.join\<close> and
  \<open>os.path.abspath\<close> do not raise, so the \<open>except\<close> branch has no case here.
  The root was resolved and is absolute, so the joined path is absolute and
  \<open>abspath\<close> does not read the current directory; the root stands in its place.
\<close>

definition validate_file_path :: "SecurityValidator \<Rightarrow> string \<Rightarrow> path_verdict" where
  "validate_file_path self file_path =
     (let hits = filter (\<lambda>pattern. re_search_literal_ci pattern file_path) dangerous_paths;
          issues1 = map DangerousPathPattern hits;
          severity1 = (if hits = [] then Info else Error);
          abs_path = abspath (project_root self) (os_path_join (project_root self) file_path);
          outside = (\<not> startswith abs_path (project_root self));
          issues2 = (if outside then issues1 @ [OutsideProject] else issues1);
          severity2 = (if outside then Error else severity1);
          file_ext = lower (path_suffix file_path);
          sensitive = (file_ext \<in> set sensitive_extensions);
          issues3 = (if sensitive then issues2 @ [SensitiveFileType file_ext] else issues2);
          severity3 = (if sensitive \<and> severity2 = Info then Warning else severity2)
      in \<lparr>pv_valid = (severity3 \<noteq> Error), pv_severity = severity3,
          pv_issues = issues3, pv_file_path = file_path\<rparr>)"

text \<open>
  What the claims call "outside the root": the normalised absolute form of the
  path is neither the root nor a path below it.
\<close>

definition inside_root :: "string \<Rightarrow> string \<Rightarrow> bool" where
  "inside_root root_dir abs_path =
     (abs_path = root_dir \<or> startswith abs_path (if endswith root_dir ''/'' then root_dir else root_dir @ ''/''))"

definition resolves_outside :: "SecurityValidator \<Rightarrow> string \<Rightarrow> bool" where
  "resolves_outside self file_path =
     (\<not> inside_root (project_root self)
          (abspath (project_root self) (os_path_join (project_root self) file_path)))"

record content_verdict =
  cv_valid :: bool
  cv_severity :: severity
  cv_issues :: "issue list"
  cv_content_size :: nat

text \<open>
  \<open>SecurityValidator.validate_content\<close>: a dangerous operation or a content above
  1 MB gives a warning; the verdict is always valid.
\<close>

definition validate_content :: "SecurityValidator \<Rightarrow> string \<Rightarrow> content_verdict" where
  "validate_content self content =
     (let content_lower = lower content;
          hits = filter (\<lambda>operation. contains content_lower (lower operation))
                   dangerous_operations;
          issues1 = map DangerousOperation hits;
          severity1 = (if hits = [] then Info else Warning);
          large = (length content > 1024 * 1024);
          issues2 = (if large then issues1 @ [ContentVeryLarge] else issues1);
          severity2 = (if large \<and> severity1 = Info then Warning else severity1)
      in \<lparr>cv_valid = True, cv_severity = severity2, cv_issues = issues2,
          cv_content_size = length content\<rparr>)"

text \<open>
  A value of the argument dictionary of a tool call (\<open>Dict[str, Any]\<close>): a string,
  or any other Python object, of which the callbacks use only \<open>str(v)\<close> and the
  truth value; every string operation on it raises.
\<close>

datatype pyval = PStr string | PObj string bool

fun py_str :: "pyval \<Rightarrow> string" where
  "py_str (PStr s) = s"
| "py_str (PObj r t) = r"

datatype py_error =
    TypeError | AttributeError | ValueError
  | FileExistsError | NotADirectoryError | IsADirectoryError | FileNotFoundError
  | SameFileError
  | OtherException string

text \<open>\<open>xs[-n:]\<close> for a positive \<open>n\<close>: the last \<open>n\<close> entries, all of them when there are fewer.\<close>

definition last_n :: "nat \<Rightarrow> 'a list \<Rightarrow> 'a list" where
  "last_n n xs = drop (length xs - n) xs"

datatype action = Pending | Allowed | Blocked | Errored | Rate_limited

text \<open>
  The value under \<open>"validation_result"\<close> of a log entry, when it is a dictionary:
  the path verdict's fields when a path was validated, and the content verdict
  under \<open>"content_validation"\<close> when a content was.
\<close>

record validation_result =
  vr_path :: "path_verdict option"
  vr_content :: "content_verdict option"

record operation_entry =
  oe_timestamp :: int
  oe_tool :: string
  oe_args :: "(string \<times> string) list"
  oe_validation_result :: "validation_result option"
  oe_action :: action
  oe_error :: "py_error option"

record warning_entry =
  sw_timestamp :: int
  sw_tool :: string
  sw_issues :: "issue list"

record counters =
  allowed :: int
  blocked :: int
  warnings :: int

record search_entry =
  se_timestamp :: int
  se_tool :: string
  se_query :: string
  se_issues :: "issue list"
  se_action :: action

text \<open>
  The keys of the session state that the security callbacks read and write. A
  list-valued key that is absent reads as the empty list (\<open>state.get(key, [])\<close>);
  \<open>"security_counters"\<close> is absent until the first allowed operation stores it.
  Time stamps are microseconds on the clock of \<open>datetime.now()\<close>, and one call of a
  callback reads the clock once.
\<close>

record sec_state =
  security_log :: "operation_entry list"
  security_warnings :: "warning_entry list"
  security_counters :: "counters option"
  search_security_log :: "search_entry list"

text \<open>
  What a callback returns when it stops the tool call (\<open>None\<close> lets it run):
  \<open>"status": "blocked"\<close> with the issues and the tool, \<open>"status": "error"\<close> with the
  exception and the tool, \<open>"status": "rate_limited"\<close> with the tool.
\<close>

datatype callback_result =
    BlockedResult "issue list" string
  | ErrorResult py_error string
  | RateLimitedResult string

record env =
  cwd :: string
  ADK_PROJECT_ROOT :: "string option"

text \<open>
  The \<open>except Exception\<close> branch of \<open>validate_file_operations\<close>. The entry is one
  object: when the exception comes after the entry was appended to the local list
  (\<open>appended\<close>), that first copy carries the new action too, and the entry is appended
  a second time.
\<close>

definition error_exit ::
  "py_error \<Rightarrow> string \<Rightarrow> operation_entry \<Rightarrow> bool \<Rightarrow> operation_entry list \<Rightarrow> sec_state
   \<Rightarrow> callback_result option \<times> sec_state" where
  "error_exit e tool_name operation_entry appended operations_log st =
     (let entry = operation_entry\<lparr>oe_action := Errored, oe_error := Some e\<rparr>;
          log = (if appended then operations_log @ [entry] else operations_log)
      in (Some (ErrorResult e tool_name),
          st\<lparr>security_log := last_n 100 (log @ [entry])\<rparr>))"

text \<open>
  Lines 170 to 184 of \<open>validate_file_operations\<close>: the entry is logged as allowed,
  then the counters are updated. \<open>operation_entry.get("validation_result", {})\<close>
  returns the stored \<open>None\<close> when no path and no content was validated (the key is
  there), and \<open>.get\<close> on it raises AttributeError, after the entry was logged and
  after \<open>counters["allowed"] += 1\<close> ran on the dictionary read from the state (the
  store hands out the object it holds, so counters that were in the state keep the
  increment; the default dictionary is dropped).
\<close>

definition allow_exit ::
  "string \<Rightarrow> operation_entry \<Rightarrow> operation_entry list \<Rightarrow> sec_state
   \<Rightarrow> callback_result option \<times> sec_state" where
  "allow_exit tool_name operation_entry operations_log st =
     (let entry = operation_entry\<lparr>oe_action := Allowed\<rparr>;
          st1 = st\<lparr>security_log := last_n 100 (operations_log @ [entry])\<rparr>;
          cs = (case security_counters st1 of
                  None \<Rightarrow> \<lparr>allowed = 0, blocked = 0, warnings = 0\<rparr>
                | Some c \<Rightarrow> c);
          cs1 = cs\<lparr>allowed := allowed cs + 1\<rparr>
      in case oe_validation_result entry of
           None \<Rightarrow>
             error_exit AttributeError tool_name entry True operations_log
               (st1\<lparr>security_counters := map_option (\<lambda>_. cs1) (security_counters st1)\<rparr>)
         | Some vr \<Rightarrow>
             (let cs2 = (if map_option cv_severity (vr_content vr) = Some Warning
                         then cs1\<lparr>warnings := warnings cs1 + 1\<rparr> else cs1)
              in (None, st1\<lparr>security_counters := Some cs2\<rparr>)))"

text \<open>
  Lines 149 to 168: the content, when present and true, is validated (a value
  that is not a string raises at \<open>content.lower()\<close>); a warning is stored under
  \<open>"security_warnings"\<close>, cut to the last 50.
\<close>

definition content_step ::
  "SecurityValidator \<Rightarrow> int \<Rightarrow> string \<Rightarrow> pyval option \<Rightarrow> operation_entry
   \<Rightarrow> operation_entry list \<Rightarrow> sec_state \<Rightarrow> callback_result option \<times> sec_state" where
  "content_step validator now tool_name content operation_entry operations_log st =
     (case content of
        None \<Rightarrow> allow_exit tool_name operation_entry operations_log st
      | Some (PObj r t) \<Rightarrow>
          if t then error_exit AttributeError tool_name operation_entry False operations_log st
          else allow_exit tool_name operation_entry operations_log st
      | Some (PStr s) \<Rightarrow>
          if s = [] then allow_exit tool_name operation_entry operations_log st
          else
            let content_validation = validate_content validator s;
                vr = (case oe_validation_result operation_entry of
                        None \<Rightarrow> \<lparr>vr_path = None, vr_content = Some content_validation\<rparr>
                      | Some v \<Rightarrow> v\<lparr>vr_content := Some content_validation\<rparr>);
                entry = operation_entry\<lparr>oe_validation_result := Some vr\<rparr>;
                st1 = (if cv_severity content_validation \<in> {Warning, Error}
                       then st\<lparr>security_warnings :=
                                 last_n 50 (security_warnings st @
                                   [\<lparr>sw_timestamp = now, sw_tool = tool_name,
                                     sw_issues = cv_issues content_validation\<rparr>])\<rparr>
                       else st)
            in allow_exit tool_name entry operations_log st1)"

text \<open>
  \<open>validate_file_operations(tool, args, tool_context)\<close>: \<open>tool_name\<close> is
  \<open>tool.__name__\<close>, \<open>args\<close> the argument dictionary in its order, \<open>now\<close> the clock.
  A path that is present and true is validated first (a value that is not a string
  raises TypeError in \<open>re.search\<close>); an invalid path is logged as blocked and
  returned, with no counter touched.
\<close>

definition validate_file_operations ::
  "env \<Rightarrow> int \<Rightarrow> string \<Rightarrow> (string \<times> pyval) list \<Rightarrow> sec_state
   \<Rightarrow> callback_result option \<times> sec_state" where
  "validate_file_operations e now tool_name args st =
     (let project_root = (case ADK_PROJECT_ROOT e of None \<Rightarrow> cwd e | Some r \<Rightarrow> r);
          validator = SecurityValidator_init (cwd e) project_root;
          operations_log = security_log st;
          operation_entry =
            \<lparr>oe_timestamp = now, oe_tool = tool_name,
             oe_args = map (\<lambda>(k, v). (k, take 100 (py_str v))) args,
             oe_validation_result = None, oe_action = Pending, oe_error = None\<rparr>;
          content = map_of args ''content''
      in case map_of args ''file_path'' of
           None \<Rightarrow> content_step validator now tool_name content operation_entry operations_log st
         | Some (PObj r t) \<Rightarrow>
             if t then error_exit TypeError tool_name operation_entry False operations_log st
             else content_step validator now tool_name content operation_entry operations_log st
         | Some (PStr file_path) \<Rightarrow>
             if file_path = []
             then content_step validator now tool_name content operation_entry operations_log st
             else
               let path_validation = validate_file_path validator file_path;
                   entry = operation_entry\<lparr>oe_validation_result :=
                             Some \<lparr>vr_path = Some path_validation, vr_content = None\<rparr>\<rparr>
               in if \<not> pv_valid path_validation
                  then (Some (BlockedResult (pv_issues path_validation) tool_name),
                        st\<lparr>security_log :=
                             last_n 100 (operations_log @ [entry\<lparr>oe_action := Blocked\<rparr>])\<rparr>)
                  else content_step validator now tool_name content entry operations_log st)"

text \<open>
  The characters that \<open>\w\<close> matches in a Python string pattern, on the code points
  0 to 255: letters, digits and the underscore of ASCII, and the alphanumeric
  characters of Latin-1.
\<close>

definition word_char :: "char \<Rightarrow> bool" where
  "word_char c =
     (let n = (of_char c :: nat)
      in (48 \<le> n \<and> n \<le> 57) \<or> (65 \<le> n \<and> n \<le> 90) \<or> n = 95 \<or> (97 \<le> n \<and> n \<le> 122)
         \<or> n \<in> {170, 178, 179, 181, 185, 186, 188, 189, 190}
         \<or> (192 \<le> n \<and> n \<noteq> 215 \<and> n \<noteq> 247))"

text \<open>
  The patterns of the query check: a literal text, or a literal word between two
  \<open>\b\<close>. \<open>word_at prev w s\<close> looks for the lowered word \<open>w\<close> in \<open>s\<close> at a position
  with no word character before (\<open>prev\<close> tells whether the character before \<open>s\<close> is
  one) and none after.
\<close>

datatype pattern = Literal string | WholeWord string

fun pattern_text :: "pattern \<Rightarrow> string" where
  "pattern_text (Literal l) = l"
| "pattern_text (WholeWord w) = w"

fun word_at :: "bool \<Rightarrow> string \<Rightarrow> string \<Rightarrow> bool" where
  "word_at prev w [] = False"
| "word_at prev w (c # cs) =
     ((\<not> prev \<and> startswith (lower (c # cs)) w
        \<and> (case drop (length w) (c # cs) of [] \<Rightarrow> True | d # _ \<Rightarrow> \<not> word_char d))
      \<or> word_at (word_char c) w cs)"

fun re_search_ci :: "pattern \<Rightarrow> string \<Rightarrow> bool" where
  "re_search_ci (Literal l) s = re_search_literal_ci l s"
| "re_search_ci (WholeWord w) s = word_at False (lower w) s"

definition suspicious_patterns :: "pattern list" where
  "suspicious_patterns =
     [Literal ''<script'', Literal ''javascript:'', WholeWord ''UNION'',
      WholeWord ''SELECT'', WholeWord ''DROP'', WholeWord ''DELETE'']"

text \<open>
  \<open>timedelta.seconds\<close> of the difference of two time stamps in microseconds: the
  seconds within the day, the days being a field of their own.
\<close>

definition timedelta_seconds :: "int \<Rightarrow> int" where
  "timedelta_seconds delta_us = (delta_us div 1000000) mod 86400"

text \<open>
  \<open>validate_search_operations(tool, args, tool_context)\<close>. A query that is not a
  string raises TypeError in \<open>re.search\<close>, outside any \<open>try\<close>, before the state is
  written. A suspicious query is logged and blocked; otherwise the entries of the
  log younger than 60 seconds are counted, and more than 20 of them make the
  call rate limited.
\<close>

definition validate_search_operations ::
  "int \<Rightarrow> string \<Rightarrow> (string \<times> pyval) list \<Rightarrow> sec_state
   \<Rightarrow> py_error + (callback_result option \<times> sec_state)" where
  "validate_search_operations now tool_name args st =
     (let search_log = search_security_log st
      in case (case map_of args ''query'' of None \<Rightarrow> PStr [] | Some v \<Rightarrow> v) of
           PObj r t \<Rightarrow> Inl TypeError
         | PStr query \<Rightarrow>
            (let hits = filter (\<lambda>pattern. re_search_ci pattern query) suspicious_patterns;
                 issues = map (\<lambda>pattern. SuspiciousQueryPattern (pattern_text pattern)) hits;
                 search_entry =
                   \<lparr>se_timestamp = now, se_tool = tool_name, se_query = take 200 query,
                    se_issues = issues,
                    se_action = (if issues \<noteq> [] then Blocked else Allowed)\<rparr>
             in if issues \<noteq> []
                then Inr (Some (BlockedResult issues tool_name),
                          st\<lparr>search_security_log := last_n 50 (search_log @ [search_entry])\<rparr>)
                else
                  let recent_searches =
                        filter (\<lambda>entry. timedelta_seconds (now - se_timestamp entry) < 60)
                          search_log
                  in if length recent_searches > 20
                     then Inr (Some (RateLimitedResult tool_name),
                               st\<lparr>search_security_log :=
                                    last_n 50 (search_log @
                                      [search_entry\<lparr>se_action := Rate_limited\<rparr>])\<rparr>)
                     else Inr (None,
                               st\<lparr>search_security_log :=
                                    last_n 50 (search_log @ [search_entry])\<rparr>)))"

text \<open>
  A session of search calls: the queries with their clock readings, one after the
  other on the same state; the verdicts are collected in order. An exception ends
  the session.
\<close>

fun search_session ::
  "string \<Rightarrow> (int \<times> string) list \<Rightarrow> sec_state \<Rightarrow> py_error + (callback_result option list \<times> sec_state)" where
  "search_session tool_name [] st = Inr ([], st)"
| "search_session tool_name ((now, q) # calls) st =
     (case validate_search_operations now tool_name [(''query'', PStr q)] st of
        Inl e \<Rightarrow> Inl e
      | Inr (r, st1) \<Rightarrow>
          (case search_session tool_name calls st1 of
             Inl e \<Rightarrow> Inl e
           | Inr (rs, st2) \<Rightarrow> Inr (r # rs, st2)))"

section \<open>The file tools' audit trail: \<open>tools/file_system_tool.py\<close>\<close>

record file_op_entry =
  fo_timestamp :: int
  fo_operation :: string
  fo_file_path :: string
  fo_success :: bool
  fo_details :: string

record file_state =
  file_operations_log :: "file_op_entry list"
  operation_counters :: "(string \<rightharpoonup> int) option"

text \<open>
  \<open>_log_file_operation\<close>: the entry is appended and the list stored as it is; a
  successful operation bumps its counter.
\<close>

definition log_file_operation ::
  "int \<Rightarrow> string \<Rightarrow> string \<Rightarrow> bool \<Rightarrow> string \<Rightarrow> file_state \<Rightarrow> file_state" where
  "log_file_operation now operation file_path success details st =
     (let operations_log = file_operations_log st @
            [\<lparr>fo_timestamp = now, fo_operation = operation, fo_file_path = file_path,
              fo_success = success, fo_details = details\<rparr>];
          cs = (case operation_counters st of
                  None \<Rightarrow> [''read'' \<mapsto> 0, ''write'' \<mapsto> 0]
                | Some c \<Rightarrow> c);
          cs1 = (if success
                 then cs(operation \<mapsto> (case cs operation of None \<Rightarrow> 0 | Some n \<Rightarrow> n) + 1)
                 else cs)
      in st\<lparr>file_operations_log := operations_log, operation_counters := Some cs1\<rparr>)"

text \<open>A run of calls of \<open>_log_file_operation\<close>, as \<open>read_file\<close> and \<open>write_file\<close> make them.\<close>

fun log_file_operations ::
  "(int \<times> string \<times> string \<times> bool \<times> string) list \<Rightarrow> file_state \<Rightarrow> file_state" where
  "log_file_operations [] st = st"
| "log_file_operations ((now, operation, file_path, success, details) # calls) st =
     log_file_operations calls (log_file_operation now operation file_path success details st)"

section \<open>The file system seen by the tools\<close>

text \<open>
  Files and directories under their normalised absolute paths, on a file system
  without symbolic links: a path reaches the entry that its normal form names, and
  a leading double slash is the root. A failed operation leaves the file system as
  it was.
\<close>

record filesystem =
  fs_files :: "string \<rightharpoonup> string"
  fs_dirs :: "string set"

definition os_key :: "string \<Rightarrow> string" where
  "os_key p = (let n = normpath p in if startswith n ''//'' then tl n else n)"

text \<open>The components of an absolute path as \<open>pathlib\<close> keeps them (\<open>..\<close> stays).\<close>

definition pure_parts :: "string \<Rightarrow> string list" where
  "pure_parts p = filter (\<lambda>w. w \<noteq> [] \<and> w \<noteq> ''.'') (split_sep CHR ''/'' p)"

definition from_parts :: "string list \<Rightarrow> string" where
  "from_parts ws = CHR ''/'' # join_sep ''/'' ws"

text \<open>\<open>Path(p).parent\<close> for an absolute \<open>p\<close>: the last component is dropped.\<close>

definition pathlib_parent :: "string \<Rightarrow> string" where
  "pathlib_parent p = from_parts (butlast (pure_parts p))"

text \<open>\<open>a / b\<close> of \<open>pathlib\<close>: an absolute right operand replaces the left one.\<close>

definition pathlib_join :: "string \<Rightarrow> string \<Rightarrow> string" where
  "pathlib_join a b = os_path_join a b"

definition path_exists :: "filesystem \<Rightarrow> string \<Rightarrow> bool" where
  "path_exists fs p = (fs_files fs p \<noteq> None \<or> p \<in> fs_dirs fs)"

text \<open>The directory \<open>d\<close> and the directories above it, the root first.\<close>

definition ancestors_of :: "string \<Rightarrow> string list" where
  "ancestors_of d =
     (let ws = pure_parts d in map (\<lambda>n. from_parts (take n ws)) [0..<Suc (length ws)])"

text \<open>
  \<open>Path(d).mkdir(parents=True, exist_ok=True)\<close>: a file on the way is an error,
  existing directories are kept.
\<close>

definition mkdir_parents :: "filesystem \<Rightarrow> string \<Rightarrow> py_error + filesystem" where
  "mkdir_parents fs d =
     (if fs_files fs d \<noteq> None then Inl FileExistsError
      else if \<exists>a \<in> set (ancestors_of d). fs_files fs a \<noteq> None then Inl NotADirectoryError
      else Inr (fs\<lparr>fs_dirs := fs_dirs fs \<union> set (ancestors_of d)\<rparr>))"

text \<open>\<open>open(p, 'w').write(content)\<close>: the parent must be a directory, \<open>p\<close> must not be one.\<close>

definition open_write :: "filesystem \<Rightarrow> string \<Rightarrow> string \<Rightarrow> py_error + filesystem" where
  "open_write fs p content =
     (if p \<in> fs_dirs fs then Inl IsADirectoryError
      else if fs_files fs (pathlib_parent p) \<noteq> None then Inl NotADirectoryError
      else if pathlib_parent p \<notin> fs_dirs fs then Inl FileNotFoundError
      else Inr (fs\<lparr>fs_files := (fs_files fs)(p \<mapsto> content)\<rparr>))"

text \<open>
  \<open>shutil.copy2(src, dst)\<close>: a directory as destination receives the file under
  its own name; source and destination being one file is SameFileError.
\<close>

definition copy2 :: "filesystem \<Rightarrow> string \<Rightarrow> string \<Rightarrow> py_error + filesystem" where
  "copy2 fs src dst =
     (let dst1 = (if dst \<in> fs_dirs fs then os_key (os_path_join dst (path_name src)) else dst)
      in if src = dst1 \<and> path_exists fs src then Inl SameFileError
         else if src \<in> fs_dirs fs then Inl IsADirectoryError
         else (case fs_files fs src of
                 None \<Rightarrow> Inl FileNotFoundError
               | Some content \<Rightarrow> open_write fs dst1 content))"

definition is_under :: "string \<Rightarrow> string \<Rightarrow> bool" where
  "is_under d p = (p = d \<or> startswith p (if endswith d ''/'' then d else d @ ''/''))"

text \<open>The end of \<open>with tempfile.TemporaryDirectory()\<close>: the directory and all below it go.\<close>

definition rmtree :: "string \<Rightarrow> filesystem \<Rightarrow> filesystem" where
  "rmtree d fs =
     \<lparr>fs_files = (\<lambda>p. if is_under d p then None else fs_files fs p),
      fs_dirs = {p \<in> fs_dirs fs. \<not> is_under d p}\<rparr>"

section \<open>The language-server tool: \<open>tools/lsp_tool.py\<close>\<close>

text \<open>
  The severity of a diagnostic is whatever the language server sends: a number
  (1 is an error and 2 a warning in the protocol) or a text; the source's default
  is the text \<open>unknown\<close>.
\<close>

datatype sev_value = SevNum int | SevText string

text \<open>A diagnostic as the language server sends it; a field may be missing.\<close>

record raw_diagnostic =
  rd_line :: "int option"
  rd_character :: "int option"
  rd_severity :: "sev_value option"
  rd_message :: "string option"
  rd_source :: "string option"
  rd_code :: "string option"

record diagnostic =
  d_line :: int
  d_character :: int
  d_severity :: sev_value
  d_message :: string
  d_source :: string
  d_code :: string

text \<open>The body of the formatting loop of \<open>get_diagnostics\<close>, with its defaults.\<close>

definition format_diagnostic :: "raw_diagnostic \<Rightarrow> diagnostic" where
  "format_diagnostic diag =
     \<lparr>d_line = (case rd_line diag of None \<Rightarrow> 0 | Some l \<Rightarrow> l),
      d_character = (case rd_character diag of None \<Rightarrow> 0 | Some c \<Rightarrow> c),
      d_severity = (case rd_severity diag of None \<Rightarrow> SevText ''unknown'' | Some s \<Rightarrow> s),
      d_message = (case rd_message diag of None \<Rightarrow> [] | Some m \<Rightarrow> m),
      d_source = (case rd_source diag of None \<Rightarrow> [] | Some s \<Rightarrow> s),
      d_code = (case rd_code diag of None \<Rightarrow> [] | Some c \<Rightarrow> c)\<rparr>"

text \<open>
  The texts that the tool logs and returns: "No LSP for <ext>" and "No language
  server available for <ext>", "File not found", "Found <n> issues",
  "Validation: <e> errors, <w> warnings", and the text of an exception.
\<close>

datatype lsp_text =
    NoLanguageServer string
  | FileNotFound string
  | FoundIssues nat
  | ValidationCounts nat nat
  | ExceptionText py_error

record lsp_log_entry =
  ll_timestamp :: int
  ll_operation :: string
  ll_file_path :: string
  ll_success :: bool
  ll_details :: lsp_text

record file_diagnostics_entry =
  fd_timestamp :: int
  fd_diagnostics :: "diagnostic list"
  fd_error_count :: nat
  fd_warning_count :: nat

record validation_entry =
  ve_timestamp :: int
  ve_file_path :: string
  ve_valid :: bool
  ve_error_count :: nat
  ve_warning_count :: nat

text \<open>The keys of the session state that the language-server tool reads and writes.\<close>

record lsp_state =
  lsp_operations_log :: "lsp_log_entry list"
  lsp_counters :: "(string \<rightharpoonup> int) option"
  file_diagnostics :: "string \<rightharpoonup> file_diagnostics_entry"
  code_validations :: "validation_entry list"

text \<open>\<open>LSPTool._log_lsp_operation\<close>: the log keeps its last 50 entries.\<close>

definition log_lsp_operation ::
  "int \<Rightarrow> string \<Rightarrow> string \<Rightarrow> bool \<Rightarrow> lsp_text \<Rightarrow> lsp_state \<Rightarrow> lsp_state" where
  "log_lsp_operation now operation file_path success details st =
     (let lsp_log = lsp_operations_log st @
            [\<lparr>ll_timestamp = now, ll_operation = operation, ll_file_path = file_path,
              ll_success = success, ll_details = details\<rparr>];
          cs = (case lsp_counters st of
                  None \<Rightarrow> [''diagnostics'' \<mapsto> 0, ''definitions'' \<mapsto> 0,
                           ''references'' \<mapsto> 0, ''validations'' \<mapsto> 0]
                | Some c \<Rightarrow> c);
          cs1 = (if success
                 then cs(operation \<mapsto> (case cs operation of None \<Rightarrow> 0 | Some n \<Rightarrow> n) + 1)
                 else cs)
      in st\<lparr>lsp_operations_log := last_n 50 lsp_log, lsp_counters := Some cs1\<rparr>)"

text \<open>
  The tool: its resolved root and the servers it has created, by name. The
  constructor is reached only where \<open>multilspy\<close> was imported.
\<close>

record LSPTool =
  lsp_project_root :: string
  language_servers :: "string set"

definition LSPTool_init :: "string \<Rightarrow> string \<Rightarrow> LSPTool" where
  "LSPTool_init wd root_dir = \<lparr>lsp_project_root = resolve wd root_dir, language_servers = {}\<rparr>"

text \<open>The \<open>code_language\<close> of \<open>self.server_configs\<close> for each known extension.\<close>

definition server_configs :: "string \<rightharpoonup> string" where
  "server_configs =
     [''.py'' \<mapsto> ''python'', ''.java'' \<mapsto> ''java'', ''.js'' \<mapsto> ''javascript'',
      ''.ts'' \<mapsto> ''javascript'', ''.rs'' \<mapsto> ''rust'', ''.cs'' \<mapsto> ''csharp'']"

text \<open>
  The language server is outside the repository. \<open>server_creates lang root_dir\<close> tells
  whether \<open>SyncLanguageServer.create\<close> returns a server for that language and
  root (it raises otherwise).
\<close>

record collaborator =
  server_creates :: "string \<Rightarrow> string \<Rightarrow> bool"

text \<open>
  \<open>LSPTool._get_or_create_server\<close>: whether a server is returned, and the tool
  with the new server remembered. An unknown extension and a failed creation
  both give \<open>None\<close>.
\<close>

definition get_or_create_server :: "LSPTool \<Rightarrow> collaborator \<Rightarrow> string \<Rightarrow> bool \<times> LSPTool" where
  "get_or_create_server self coll file_ext =
     (case server_configs file_ext of
        None \<Rightarrow> (False, self)
      | Some code_language \<Rightarrow>
          let server_name = ''server_'' @ file_ext
          in if server_name \<in> language_servers self then (True, self)
             else if server_creates coll code_language (lsp_project_root self)
             then (True, self\<lparr>language_servers := insert server_name (language_servers self)\<rparr>)
             else (False, self))"

datatype diagnostics_result =
    DiagnosticsError lsp_text
  | DiagnosticsSuccess string "diagnostic list" nat nat nat

text \<open>\<open>result.get("diagnostics", [])\<close>; the error results carry the empty list.\<close>

fun result_diagnostics :: "diagnostics_result \<Rightarrow> diagnostic list" where
  "result_diagnostics (DiagnosticsError m) = []"
| "result_diagnostics (DiagnosticsSuccess p ds t e w) = ds"

definition is_error_diag :: "diagnostic \<Rightarrow> bool" where
  "is_error_diag d = (d_severity d = SevNum 1)"

definition is_warning_diag :: "diagnostic \<Rightarrow> bool" where
  "is_warning_diag d = (d_severity d = SevNum 2)"

text \<open>
  \<open>LSPTool.get_diagnostics\<close>. The call of the language server is commented out in
  the source, which binds \<open>diagnostics\<close> to the empty list and formats that; so does
  the model. With no \<open>content\<close> the file is read from the tool's root.
\<close>

definition get_diagnostics ::
  "LSPTool \<Rightarrow> collaborator \<Rightarrow> filesystem \<Rightarrow> int
   \<Rightarrow> string \<Rightarrow> string option \<Rightarrow> lsp_state option
   \<Rightarrow> diagnostics_result \<times> lsp_state option \<times> LSPTool" where
  "get_diagnostics self coll fs now file_path content tool_context =
     (let file_ext = path_suffix file_path;
          (language_server, self1) = get_or_create_server self coll file_ext;
          full_path = os_key (pathlib_join (lsp_project_root self) file_path)
      in if \<not> language_server
         then (DiagnosticsError (NoLanguageServer file_ext),
               map_option (log_lsp_operation now ''diagnostics'' file_path False
                            (NoLanguageServer file_ext)) tool_context,
               self1)
         else if content = None \<and> \<not> path_exists fs full_path
         then (DiagnosticsError (FileNotFound file_path),
               map_option (log_lsp_operation now ''diagnostics'' file_path False
                            (FileNotFound file_path)) tool_context,
               self1)
         else if content = None \<and> fs_files fs full_path = None
         then (DiagnosticsError (ExceptionText IsADirectoryError),
               map_option (log_lsp_operation now ''diagnostics'' file_path False
                            (ExceptionText IsADirectoryError)) tool_context,
               self1)
         else
           let diagnostics = ([] :: raw_diagnostic list);
               formatted_diagnostics = map format_diagnostic diagnostics;
               errors = length (filter is_error_diag formatted_diagnostics);
               warnings = length (filter is_warning_diag formatted_diagnostics);
               store = (\<lambda>st. log_lsp_operation now ''diagnostics'' file_path True
                               (FoundIssues (length formatted_diagnostics))
                               (st\<lparr>file_diagnostics := (file_diagnostics st)(file_path \<mapsto>
                                      \<lparr>fd_timestamp = now, fd_diagnostics = formatted_diagnostics,
                                       fd_error_count = errors, fd_warning_count = warnings\<rparr>)\<rparr>))
           in (DiagnosticsSuccess file_path formatted_diagnostics
                 (length formatted_diagnostics) errors warnings,
               map_option store tool_context,
               self1))"

text \<open>The six configuration files that the shadow workspace receives.\<close>

definition config_files :: "string list" where
  "config_files =
     [''pyproject.toml'', ''setup.py'', ''requirements.txt'', ''package.json'',
      ''tsconfig.json'', ''.pylintrc'']"

text \<open>
  The loop over \<open>config_files\<close> of \<open>_copy_workspace_context\<close>: the first exception
  ends it, what was copied stays.
\<close>

fun copy_config_files :: "string \<Rightarrow> string \<Rightarrow> string list \<Rightarrow> filesystem \<Rightarrow> filesystem" where
  "copy_config_files root_dir temp_workspace [] fs = fs"
| "copy_config_files root_dir temp_workspace (config_file # rest) fs =
     (let source_config = os_key (pathlib_join root_dir config_file)
      in if path_exists fs source_config
         then (case copy2 fs source_config (os_key (pathlib_join temp_workspace config_file)) of
                 Inl e \<Rightarrow> fs
               | Inr fs1 \<Rightarrow> copy_config_files root_dir temp_workspace rest fs1)
         else copy_config_files root_dir temp_workspace rest fs)"

text \<open>
  \<open>LSPTool._copy_workspace_context\<close>: the target file, when it exists, then the
  configuration files; every exception is caught and printed.
\<close>

definition copy_workspace_context :: "LSPTool \<Rightarrow> string \<Rightarrow> string \<Rightarrow> filesystem \<Rightarrow> filesystem" where
  "copy_workspace_context self temp_workspace target_file fs =
     (let source_file = os_key (pathlib_join (lsp_project_root self) target_file);
          dest_file = pathlib_join temp_workspace target_file
      in if path_exists fs source_file
         then (case mkdir_parents fs (os_key (pathlib_parent dest_file)) of
                 Inl e \<Rightarrow> fs
               | Inr fs1 \<Rightarrow>
                   (case copy2 fs1 source_file (os_key dest_file) of
                      Inl e \<Rightarrow> fs1
                    | Inr fs2 \<Rightarrow>
                        copy_config_files (lsp_project_root self) temp_workspace config_files fs2))
         else copy_config_files (lsp_project_root self) temp_workspace config_files fs)"

datatype shadow_result =
    ShadowSuccess bool nat nat "diagnostic list" string
  | ShadowError py_error

text \<open>The \<open>"status"\<close> and the \<open>"valid"\<close> of the returned dictionary.\<close>

fun shadow_status_success :: "shadow_result \<Rightarrow> bool" where
  "shadow_status_success (ShadowSuccess v e w ds t) = True"
| "shadow_status_success (ShadowError e) = False"

fun shadow_valid :: "shadow_result \<Rightarrow> bool" where
  "shadow_valid (ShadowSuccess v e w ds t) = v"
| "shadow_valid (ShadowError e) = False"

text \<open>
  The \<open>except Exception\<close> branch of \<open>validate_code_in_shadow_workspace\<close>, reached
  after the temporary directory was removed.
\<close>

definition shadow_failure ::
  "py_error \<Rightarrow> int \<Rightarrow> string \<Rightarrow> lsp_state option \<Rightarrow> filesystem
   \<Rightarrow> shadow_result \<times> lsp_state option \<times> filesystem" where
  "shadow_failure e now file_path tool_context fs =
     (ShadowError e,
      map_option (log_lsp_operation now ''validations'' file_path False (ExceptionText e))
        tool_context,
      fs)"

text \<open>
  Lines 219 to 243 of \<open>validate_code_in_shadow_workspace\<close>: the diagnostics of the
  result of \<open>get_diagnostics\<close> are counted by severity, the validation is stored
  (last 20) and logged, and the success result is returned; it is valid when no
  diagnostic has the severity 1.
\<close>

definition validation_report ::
  "string \<Rightarrow> int \<Rightarrow> string \<Rightarrow> diagnostics_result \<Rightarrow> lsp_state option
   \<Rightarrow> shadow_result \<times> lsp_state option" where
  "validation_report temp_workspace now file_path diagnostics_result tool_context =
     (let ds = result_diagnostics diagnostics_result;
          has_errors = (\<exists>d \<in> set ds. is_error_diag d);
          error_count = length (filter is_error_diag ds);
          warning_count = length (filter is_warning_diag ds);
          store = (\<lambda>st. log_lsp_operation now ''validations'' file_path True
                           (ValidationCounts error_count warning_count)
                           (st\<lparr>code_validations :=
                                 last_n 20 (code_validations st @
                                   [\<lparr>ve_timestamp = now, ve_file_path = file_path,
                                     ve_valid = (\<not> has_errors),
                                     ve_error_count = error_count,
                                     ve_warning_count = warning_count\<rparr>])\<rparr>))
      in (ShadowSuccess (\<not> has_errors) error_count warning_count ds temp_workspace,
          map_option store tool_context))"

text \<open>
  \<open>LSPTool.validate_code_in_shadow_workspace\<close>. \<open>temp_dir\<close> is the fresh absolute
  directory that \<open>tempfile.TemporaryDirectory()\<close> creates; it is removed on every way
  out. It is absolute, so the shadow tool's root does not depend on the current
  directory. The result comes with the session state and the file system after
  the call.
\<close>

definition validate_code_in_shadow_workspace ::
  "LSPTool \<Rightarrow> collaborator \<Rightarrow> string \<Rightarrow> int
   \<Rightarrow> string \<Rightarrow> string \<Rightarrow> lsp_state option \<Rightarrow> filesystem
   \<Rightarrow> shadow_result \<times> lsp_state option \<times> filesystem" where
  "validate_code_in_shadow_workspace self coll temp_dir now
       file_path new_content tool_context fs =
     (let temp_workspace = temp_dir;
          fs0 = fs\<lparr>fs_dirs := insert temp_dir (fs_dirs fs)\<rparr>;
          fs1 = copy_workspace_context self temp_workspace file_path fs0;
          temp_file = pathlib_join temp_workspace file_path
      in case mkdir_parents fs1 (os_key (pathlib_parent temp_file)) of
           Inl e \<Rightarrow> shadow_failure e now file_path tool_context (rmtree temp_dir fs1)
         | Inr fs2 \<Rightarrow>
             (case open_write fs2 (os_key temp_file) new_content of
                Inl e \<Rightarrow> shadow_failure e now file_path tool_context (rmtree temp_dir fs2)
              | Inr fs3 \<Rightarrow>
                  (let shadow_lsp = LSPTool_init temp_workspace temp_workspace;
                       (diagnostics_result, ctx1, shadow_lsp1) =
                          get_diagnostics shadow_lsp coll fs3 now file_path
                            (Some new_content) tool_context;
                       (result, ctx2) =
                          validation_report temp_workspace now file_path diagnostics_result ctx1
                   in (result, ctx2, rmtree temp_dir fs3))))"

text \<open>
  Whether the two writes of the call into the temporary directory succeed: the
  parent directory of the temporary file can be made, and the file can be written.
\<close>

definition shadow_writes_succeed :: "LSPTool \<Rightarrow> string \<Rightarrow> string \<Rightarrow> string \<Rightarrow> filesystem \<Rightarrow> bool" where
  "shadow_writes_succeed self temp_dir file_path new_content fs =
     (let fs0 = fs\<lparr>fs_dirs := insert temp_dir (fs_dirs fs)\<rparr>;
          fs1 = copy_workspace_context self temp_dir file_path fs0;
          temp_file = pathlib_join temp_dir file_path
      in case mkdir_parents fs1 (os_key (pathlib_parent temp_file)) of
           Inl e \<Rightarrow> False
         | Inr fs2 \<Rightarrow>
             (case open_write fs2 (os_key temp_file) new_content of
                Inl e \<Rightarrow> False
              | Inr fs3 \<Rightarrow> True))"

text \<open>
  \<open>validate_code_tool\<close>: the tool wrapper builds the \<open>LSPTool\<close> from the environment
  and validates.
\<close>

definition validate_code_tool ::
  "env \<Rightarrow> collaborator \<Rightarrow> string \<Rightarrow> int
   \<Rightarrow> string \<Rightarrow> string \<Rightarrow> lsp_state option \<Rightarrow> filesystem
   \<Rightarrow> shadow_result \<times> lsp_state option \<times> filesystem" where
  "validate_code_tool e coll temp_dir now file_path new_content tool_context fs =
     validate_code_in_shadow_workspace
       (LSPTool_init (cwd e) (case ADK_PROJECT_ROOT e of None \<Rightarrow> cwd e | Some r \<Rightarrow> r))
       coll temp_dir now file_path new_content tool_context fs"

section \<open>Indexing and freshness: \<open>tools/indexing_tool.py\<close>\<close>

text \<open>
  What \<open>IndexingAgent.index_codebase\<close> returns; the agent is imported from
  \<open>coding_agent.tools.indexing_agent\<close>, and the tool sees only this result or the
  exception.
\<close>

record index_result =
  ir_indexed_files :: "string list"
  ir_total_elements :: int
  ir_errors :: "string list"

text \<open>
  The text under \<open>"last_indexed"\<close>: an ISO time stamp, read back by
  \<open>datetime.fromisoformat\<close> as microseconds on the clock, or any other text, on which
  \<open>fromisoformat\<close> raises ValueError.
\<close>

datatype timestamp_text = IsoTime int | NotIso string

record index_status =
  last_indexed :: "timestamp_text option"
  files_count :: nat
  elements_count :: int
  has_errors :: bool

datatype indexing_outcome = Completed nat int nat | Failed py_error

record indexing_log_entry =
  il_timestamp :: int
  il_outcome :: indexing_outcome

text \<open>
  The keys of the session state of the indexing tools. \<open>index_status\<close> is \<open>None\<close>
  when the key is absent or holds an empty dictionary.
\<close>

record index_state =
  indexing_log :: "indexing_log_entry list"
  index_status :: "index_status option"
  indexed_files :: "string list"
  indexing_counters :: "(string \<rightharpoonup> int) option"

datatype index_response =
    IndexSuccess nat int "string list" "string list"
  | IndexFailure py_error

text \<open>
  \<open>index_codebase_tool\<close>, the outcome of the indexing agent being the parameter
  \<open>indexer\<close>: a completed run is logged (last 10 runs), and the status, the list of
  indexed files and the counter are stored.
\<close>

definition index_codebase_tool ::
  "int \<Rightarrow> py_error + index_result \<Rightarrow> index_state \<Rightarrow> index_response \<times> index_state" where
  "index_codebase_tool now indexer st =
     (case indexer of
        Inl e \<Rightarrow>
          (IndexFailure e,
           st\<lparr>indexing_log := last_n 10 (indexing_log st @
                  [\<lparr>il_timestamp = now, il_outcome = Failed e\<rparr>])\<rparr>)
      | Inr result \<Rightarrow>
          (let n = length (ir_indexed_files result);
               cs = (case indexing_counters st of
                       None \<Rightarrow> [''full_index'' \<mapsto> 0, ''incremental_index'' \<mapsto> 0]
                     | Some c \<Rightarrow> c);
               cs1 = cs(''full_index'' \<mapsto>
                          (case cs ''full_index'' of None \<Rightarrow> 0 | Some k \<Rightarrow> k) + 1)
           in (IndexSuccess n (ir_total_elements result) (ir_errors result)
                 (ir_indexed_files result),
               st\<lparr>indexing_log := last_n 10 (indexing_log st @
                      [\<lparr>il_timestamp = now,
                        il_outcome = Completed n (ir_total_elements result)
                                       (length (ir_errors result))\<rparr>]),
                  index_status := Some \<lparr>last_indexed = Some (IsoTime now), files_count = n,
                                        elements_count = ir_total_elements result,
                                        has_errors = (ir_errors result \<noteq> [])\<rparr>,
                  indexed_files := ir_indexed_files result,
                  indexing_counters := Some cs1\<rparr>)))"

definition code_extensions :: "string list" where
  "code_extensions = [''.py'', ''.js'', ''.ts'', ''.tsx'', ''.jsx'', ''.md'']"

definition ignore_dirs :: "string list" where
  "ignore_dirs = [''.git'', ''__pycache__'', ''node_modules'', ''.venv'', ''venv'', ''.adk_index'']"

text \<open>
  The current files of the freshness check. \<open>tree\<close> lists the entries below the
  project root, each as its components relative to the root. \<open>rglob("*" + ext)\<close>
  yields the entries whose name ends with the extension; an entry with an ignored
  name among the parts of its full path (the root's parts included) is dropped;
  the rest are the relative paths as texts, as a set.
\<close>

definition current_files :: "string \<Rightarrow> string list list \<Rightarrow> string list" where
  "current_files root_dir tree =
     (let found = concat (map (\<lambda>ext. filter (\<lambda>rel. rel \<noteq> [] \<and> endswith (last rel) ext) tree)
                            code_extensions);
          kept = filter (\<lambda>rel. \<not> (\<exists>ignore_dir \<in> set ignore_dirs.
                                      ignore_dir \<in> set (pure_parts root_dir @ rel))) found
      in remdups (map (join_sep ''/'') kept))"

text \<open>
  What the claims call a qualifying file: an entry below the root whose name ends
  with one of the six extensions and that lies in no ignored directory.
\<close>

definition qualifies :: "string list \<Rightarrow> bool" where
  "qualifies rel =
     (rel \<noteq> [] \<and> (\<exists>ext \<in> set code_extensions. endswith (last rel) ext)
      \<and> (\<forall>ignore_dir \<in> set ignore_dirs. ignore_dir \<notin> set rel))"

datatype freshness_reason =
    NoIndexFound
  | TimestampMissing
  | IndexOld int
  | FilesChanged nat nat "string list" "string list"
  | ErrorChecking py_error

datatype freshness = Fresh int timestamp_text | NotFresh freshness_reason

fun fresh :: "freshness \<Rightarrow> bool" where
  "fresh (Fresh age t) = True"
| "fresh (NotFresh r) = False"

text \<open>Twenty-four hours in microseconds.\<close>

definition staleness_threshold :: int where
  "staleness_threshold = 24 * 3600 * 1000000"

text \<open>
  \<open>check_index_freshness_tool\<close>. The age is compared in whole microseconds, where
  the source divides floating-point seconds by 3600. The two previews show five
  of the new and of the deleted files (the source takes them in the order of a
  Python set). An exception of the directory walk gives the error result.
\<close>

definition check_index_freshness_tool ::
  "env \<Rightarrow> int \<Rightarrow> py_error + string list list \<Rightarrow> index_state \<Rightarrow> freshness" where
  "check_index_freshness_tool e now tree st =
     (let project_root = (case ADK_PROJECT_ROOT e of None \<Rightarrow> cwd e | Some r \<Rightarrow> r)
      in case index_status st of
           None \<Rightarrow> NotFresh NoIndexFound
         | Some status \<Rightarrow>
            (case last_indexed status of
               None \<Rightarrow> NotFresh TimestampMissing
             | Some (NotIso s) \<Rightarrow>
                 if s = [] then NotFresh TimestampMissing else NotFresh (ErrorChecking ValueError)
             | Some (IsoTime t) \<Rightarrow>
                 if now - t > staleness_threshold then NotFresh (IndexOld (now - t))
                 else (case tree of
                         Inl err \<Rightarrow> NotFresh (ErrorChecking err)
                       | Inr entries \<Rightarrow>
                          (let indexed = remdups (indexed_files st);
                               current = current_files project_root entries;
                               new_files = filter (\<lambda>f. f \<notin> set indexed) current;
                               deleted_files = filter (\<lambda>f. f \<notin> set current) indexed
                           in if new_files \<noteq> [] \<or> deleted_files \<noteq> []
                              then NotFresh (FilesChanged (length new_files) (length deleted_files)
                                               (take 5 new_files) (take 5 deleted_files))
                              else Fresh (now - t) (IsoTime t)))))"

section \<open>Semantic search: \<open>tools/vector_search_tool.py\<close>\<close>

record metadata =
  m_name :: "string option"
  m_element_type :: "string option"
  m_file_path :: "string option"
  m_start_line :: "int option"
  m_end_line :: "int option"
  m_docstring :: "string option"

text \<open>
  The answer of a collection to a query, by rows; distances are real numbers here
  and floating-point numbers in the source.
\<close>

record query_results =
  documents :: "string list list"
  metadatas :: "metadata list list"
  distances :: "real list list"

text \<open>
  A collection of the vector store, with the embedding model before it: from the
  query text, the number of results and the file-type filter to the answer or the
  exception raised on the way.
\<close>

datatype collection = Collection "string \<Rightarrow> int \<Rightarrow> string option \<Rightarrow> py_error + query_results"

fun collection_query ::
  "collection \<Rightarrow> string \<Rightarrow> int \<Rightarrow> string option \<Rightarrow> py_error + query_results" where
  "collection_query (Collection f) q n w = f q n w"

record VectorSearchTool =
  code_collection :: "collection option"
  file_collection :: "collection option"

text \<open>
  \<open>VectorSearchTool.__init__\<close>: \<open>client name\<close> is the collection of that name, \<open>None\<close>
  where \<open>get_collection\<close> raises ValueError because there is none. Both fields are
  \<open>None\<close> as soon as one collection is missing.
\<close>

definition VectorSearchTool_init :: "(string \<rightharpoonup> collection) \<Rightarrow> VectorSearchTool" where
  "VectorSearchTool_init client =
     (case client ''code_elements'' of
        None \<Rightarrow> \<lparr>code_collection = None, file_collection = None\<rparr>
      | Some code \<Rightarrow>
          (case client ''file_summaries'' of
             None \<Rightarrow> \<lparr>code_collection = None, file_collection = None\<rparr>
           | Some file \<Rightarrow> \<lparr>code_collection = Some code, file_collection = Some file\<rparr>))"

record search_hit =
  rank :: nat
  similarity_score :: real
  element_name :: string
  element_type :: string
  hit_file_path :: string
  start_line :: int
  end_line :: int
  content_preview :: string
  docstring :: string

record history_entry =
  he_timestamp :: int
  he_query :: string
  he_search_type :: string
  he_results_count :: nat
  he_successful :: bool

record search_state =
  search_history :: "history_entry list"
  search_counters :: "string \<rightharpoonup> int"
  last_search_results :: "search_hit list option"
  last_search_query :: "string option"
  discovered_files :: "string list"

text \<open>\<open>VectorSearchTool._log_search\<close>: the history keeps its last 50 entries.\<close>

definition log_search ::
  "int \<Rightarrow> string \<Rightarrow> string \<Rightarrow> nat \<Rightarrow> bool \<Rightarrow> search_state \<Rightarrow> search_state" where
  "log_search now query search_type results_count successful st =
     st\<lparr>search_history := last_n 50 (search_history st @
            [\<lparr>he_timestamp = now, he_query = query, he_search_type = search_type,
              he_results_count = results_count, he_successful = successful\<rparr>]),
        search_counters := (search_counters st)(search_type \<mapsto>
            (case search_counters st search_type of None \<Rightarrow> 0 | Some n \<Rightarrow> n) + 1)\<rparr>"

text \<open>
  The texts of the search results: "No code index found. Please run indexing
  first.", "No results found for query: '<query>'", "Search failed: <exception>".
\<close>

datatype search_text = NoCodeIndexFound | NoResultsFound string | SearchFailed py_error

text \<open>
  The returned dictionary: status \<open>error\<close> with a message and no results, status
  \<open>success\<close> with a message and no results, or status \<open>success\<close> with the query, the
  count and the results.
\<close>

datatype search_response =
    SearchError search_text
  | SearchEmpty search_text
  | SearchResults string nat "search_hit list"

fun status_success :: "search_response \<Rightarrow> bool" where
  "status_success (SearchError m) = False"
| "status_success (SearchEmpty m) = True"
| "status_success (SearchResults q n rs) = True"

fun response_results :: "search_response \<Rightarrow> search_hit list" where
  "response_results (SearchError m) = []"
| "response_results (SearchEmpty m) = []"
| "response_results (SearchResults q n rs) = rs"

text \<open>The characters that \<open>str.strip()\<close> removes, on the code points 0 to 255.\<close>

definition is_space :: "char \<Rightarrow> bool" where
  "is_space c = (let n = (of_char c :: nat) in (9 \<le> n \<and> n \<le> 13) \<or> (28 \<le> n \<and> n \<le> 32)
                   \<or> n = 133 \<or> n = 160)"

text \<open>The body of the loop over the documents of the first row.\<close>

definition format_hit :: "metadata list \<Rightarrow> real list \<Rightarrow> nat \<Rightarrow> string \<Rightarrow> search_hit" where
  "format_hit meta_list dist_list i doc =
     (let meta = (if i < length meta_list then meta_list ! i
                  else \<lparr>m_name = None, m_element_type = None, m_file_path = None,
                        m_start_line = None, m_end_line = None, m_docstring = None\<rparr>);
          dist = (if i < length dist_list then dist_list ! i else 1)
      in \<lparr>rank = i + 1, similarity_score = 1 - dist,
          element_name = (case m_name meta of None \<Rightarrow> ''Unknown'' | Some s \<Rightarrow> s),
          element_type = (case m_element_type meta of None \<Rightarrow> ''Unknown'' | Some s \<Rightarrow> s),
          hit_file_path = (case m_file_path meta of None \<Rightarrow> ''Unknown'' | Some s \<Rightarrow> s),
          start_line = (case m_start_line meta of None \<Rightarrow> 0 | Some l \<Rightarrow> l),
          end_line = (case m_end_line meta of None \<Rightarrow> 0 | Some l \<Rightarrow> l),
          content_preview = (if length doc > 200 then take 200 doc @ ''...'' else doc),
          docstring = (case m_docstring meta of None \<Rightarrow> [] | Some s \<Rightarrow> s)\<rparr>)"

text \<open>
  \<open>VectorSearchTool.semantic_search\<close>. Without a code collection the search is
  logged as failed and the error is returned before anything is queried.
\<close>

definition semantic_search ::
  "VectorSearchTool \<Rightarrow> int \<Rightarrow> string \<Rightarrow> int \<Rightarrow> string option \<Rightarrow> search_state option
   \<Rightarrow> search_response \<times> search_state option" where
  "semantic_search self now query max_results file_type_filter tool_context =
     (case code_collection self of
        None \<Rightarrow>
          (SearchError NoCodeIndexFound,
           map_option (log_search now query ''semantic_code'' 0 False) tool_context)
      | Some coll \<Rightarrow>
          (let wh = (case file_type_filter of
                       None \<Rightarrow> None
                     | Some f \<Rightarrow> if f \<noteq> [] \<and> (\<exists>c \<in> set f. \<not> is_space c) then Some f else None)
           in case collection_query coll query max_results wh of
                Inl e \<Rightarrow>
                  (SearchError (SearchFailed e),
                   map_option (log_search now query ''semantic_code'' 0 False) tool_context)
              | Inr results \<Rightarrow>
                  if documents results = [] \<or> hd (documents results) = []
                  then (SearchEmpty (NoResultsFound query),
                        map_option (log_search now query ''semantic_code'' 0 True) tool_context)
                  else
                    let doc_list = hd (documents results);
                        meta_list = (if metadatas results = [] then []
                                     else hd (metadatas results));
                        dist_list = (if distances results = [] then []
                                     else hd (distances results));
                        formatted_results =
                          map (\<lambda>(i, doc). format_hit meta_list dist_list i doc)
                            (zip [0..<length doc_list] doc_list);
                        store = (\<lambda>st.
                          (log_search now query ''semantic_code'' (length formatted_results)
                             True st)
                            \<lparr>last_search_results := Some formatted_results,
                             last_search_query := Some query,
                             discovered_files :=
                               remdups (discovered_files st @
                                        map hit_file_path formatted_results)\<rparr>)
                    in (SearchResults query (length formatted_results) formatted_results,
                        map_option store tool_context)))"

section \<open>Example inputs\<close>

text \<open>
  A project at \<open>/home/u/proj\<close> with one source file, and the empty session states.
\<close>

definition example_fs :: filesystem where
  "example_fs =
     \<lparr>fs_files = [''/home/u/proj/app.py'' \<mapsto> ''old''],
      fs_dirs = {''/'', ''/home'', ''/home/u'', ''/home/u/proj'', ''/tmp''}\<rparr>"

definition example_env :: env where
  "example_env = \<lparr>cwd = ''/'', ADK_PROJECT_ROOT = Some ''/home/u/proj''\<rparr>"

definition empty_sec_state :: sec_state where
  "empty_sec_state =
     \<lparr>security_log = [], security_warnings = [], security_counters = None,
      search_security_log = []\<rparr>"

definition empty_index_state :: index_state where
  "empty_index_state =
     \<lparr>indexing_log = [], index_status = None, indexed_files = [], indexing_counters = None\<rparr>"

text \<open>The outcome of indexing a project that holds no qualifying file.\<close>

definition empty_index_result :: index_result where
  "empty_index_result = \<lparr>ir_indexed_files = [], ir_total_elements = 0, ir_errors = []\<rparr>"

text \<open>A warning and an error as a language server reports them.\<close>

definition warning_diag :: raw_diagnostic where
  "warning_diag =
     \<lparr>rd_line = Some 3, rd_character = Some 0, rd_severity = Some (SevNum 2),
      rd_message = Some ''unused import'', rd_source = Some ''pyright'', rd_code = None\<rparr>"

definition error_diag :: raw_diagnostic where
  "error_diag =
     \<lparr>rd_line = Some 7, rd_character = Some 4, rd_severity = Some (SevNum 1),
      rd_message = Some ''undefined name'', rd_source = Some ''pyright'', rd_code = None\<rparr>"

definition always_available :: collaborator where
  "always_available = \<lparr>server_creates = (\<lambda>lang root_dir. True)\<rparr>"

definition never_available :: collaborator where
  "never_available = \<lparr>server_creates = (\<lambda>lang root_dir. False)\<rparr>"

section \<open>Shared facts\<close>

lemma last_n_short: "length xs \<le> n \<Longrightarrow> last_n n xs = xs"
  by (simp add: last_n_def)

lemma length_last_n: "length (last_n n xs) = min n (length xs)"
  by (simp add: last_n_def)

lemma etc_passwd_verdict:
  "validate_file_path (SecurityValidator_init ''/'' ''/home/u/proj'') ''/etc/passwd''
   = \<lparr>pv_valid = False, pv_severity = Error,
      pv_issues = [DangerousPathPattern ''/etc/'', OutsideProject],
      pv_file_path = ''/etc/passwd''\<rparr>"
  by code_simp

lemma auth_is_clean:
  "filter (\<lambda>pattern. re_search_ci pattern ''auth'') suspicious_patterns = []"
  by code_simp

text \<open>A query without a suspicious pattern passes as long as the log holds at most 20 entries.\<close>

lemma search_allowed_step:
  assumes "filter (\<lambda>pattern. re_search_ci pattern q) suspicious_patterns = []"
    and "length (search_security_log st) \<le> 20"
  shows "validate_search_operations now tool_name [(''query'', PStr q)] st =
           Inr (None, st\<lparr>search_security_log := search_security_log st @
                  [\<lparr>se_timestamp = now, se_tool = tool_name, se_query = take 200 q,
                    se_issues = [], se_action = Allowed\<rparr>]\<rparr>)"
proof -
  let ?recent = "filter (\<lambda>entry. timedelta_seconds (now - se_timestamp entry) < 60)
                   (search_security_log st)"
  have "length ?recent \<le> 20"
    by (rule le_trans [OF length_filter_le assms(2)])
  then have r: "\<not> 20 < length ?recent" by simp
  have l: "last_n 50 (search_security_log st @ [x]) = search_security_log st @ [x]" for x
    using assms(2) by (simp add: last_n_short)
  show ?thesis
    unfolding validate_search_operations_def Let_def
    using r by (simp add: assms(1) l)
qed

lemma search_session_log:
  assumes "filter (\<lambda>pattern. re_search_ci pattern q) suspicious_patterns = []"
  shows "length (search_security_log st) + length ts \<le> 21 \<Longrightarrow>
         \<exists>st1. search_session tool_name (map (\<lambda>t. (t, q)) ts) st
                  = Inr (replicate (length ts) None, st1)
               \<and> map se_timestamp (search_security_log st1)
                  = map se_timestamp (search_security_log st) @ ts"
proof (induction ts arbitrary: st)
  case Nil
  then show ?case by simp
next
  case (Cons t ts)
  let ?st = "st\<lparr>search_security_log := search_security_log st @
                  [\<lparr>se_timestamp = t, se_tool = tool_name, se_query = take 200 q,
                    se_issues = [], se_action = Allowed\<rparr>]\<rparr>"
  from Cons.prems have small: "length (search_security_log st) \<le> 20" by simp
  have step: "validate_search_operations t tool_name [(''query'', PStr q)] st = Inr (None, ?st)"
    by (rule search_allowed_step [OF assms small])
  from Cons.prems have "length (search_security_log ?st) + length ts \<le> 21" by simp
  from Cons.IH [OF this] obtain st1 where
    "search_session tool_name (map (\<lambda>t. (t, q)) ts) ?st = Inr (replicate (length ts) None, st1)"
    and "map se_timestamp (search_security_log st1)
           = map se_timestamp (search_security_log ?st) @ ts"
    by blast
  then show ?case by (simp add: step)
qed

text \<open>More than 20 recent entries in the log make a clean query rate limited.\<close>

lemma search_rate_limited_step:
  assumes "filter (\<lambda>pattern. re_search_ci pattern q) suspicious_patterns = []"
    and "20 < length (filter (\<lambda>entry. timedelta_seconds (now - se_timestamp entry) < 60)
                        (search_security_log st))"
  shows "\<exists>st2. validate_search_operations now tool_name [(''query'', PStr q)] st
                = Inr (Some (RateLimitedResult tool_name), st2)"
  unfolding validate_search_operations_def Let_def
  using assms(2) by (simp add: assms(1))

lemma security_log_bounded:
  "length (security_log (snd (validate_file_operations e now tool_name args st))) \<le> 100"
  by (auto simp: validate_file_operations_def content_step_def allow_exit_def error_exit_def
        Let_def length_last_n
      split: option.splits pyval.splits)

lemma search_security_log_bounded:
  "validate_search_operations now tool_name args st = Inr (r, st1)
   \<Longrightarrow> length (search_security_log st1) \<le> 50"
  by (auto simp: validate_search_operations_def Let_def length_last_n
      split: option.splits pyval.splits if_splits)

lemma no_collection_after_init:
  "client ''code_elements'' = None \<Longrightarrow> code_collection (VectorSearchTool_init client) = None"
  by (simp add: VectorSearchTool_init_def)

lemma is_error_diag_eq: "is_error_diag = (\<lambda>d. d_severity d = SevNum 1)"
  by (simp add: fun_eq_iff is_error_diag_def)

text \<open>With a content given, the result of \<open>get_diagnostics\<close> carries no diagnostic.\<close>

lemma get_diagnostics_with_content:
  "result_diagnostics (fst (get_diagnostics self coll fs now file_path
                              (Some content) tool_context)) = []"
  by (simp add: get_diagnostics_def Let_def case_prod_beta)

section \<open>Path validation\<close>

text \<open>
  C1. The claim: every path whose normalised absolute form lies outside the
  project root gets a blocking verdict. The code compares the two paths as
  strings (\<open>abs_path.startswith(str(self.project_root))\<close>), so an absolute path into
  a sibling directory whose name extends the root's name passes: with the root
  \<open>/home/u/proj\<close>, the path \<open>/home/u/proj-evil/notes.txt\<close> resolves outside
  the root and the verdict is valid, with severity info and no issue.
\<close>

theorem validate_file_path_sibling_prefix_passes:
  "resolves_outside (SecurityValidator_init ''/'' ''/home/u/proj'') ''/home/u/proj-evil/notes.txt''
   \<and> validate_file_path (SecurityValidator_init ''/'' ''/home/u/proj'') ''/home/u/proj-evil/notes.txt''
       = \<lparr>pv_valid = True, pv_severity = Info, pv_issues = [],
          pv_file_path = ''/home/u/proj-evil/notes.txt''\<rparr>"
  by code_simp

section \<open>Shadow validation\<close>

text \<open>
  C2. The claim: shadow validation leaves the target file of the real project as
  it was. With an absolute \<open>file_path\<close> the path \<open>temp_workspace / file_path\<close> is
  \<open>file_path\<close> itself: copying the file onto itself fails and is caught, and the
  proposed content is written over the real file. Here the project file
  \<open>/home/u/proj/app.py\<close> holds \<open>old\<close> before the call and \<open>new\<close> after it, and
  the call reports success.
\<close>

theorem shadow_validation_overwrites_absolute_target:
  "(case validate_code_in_shadow_workspace (LSPTool_init ''/'' ''/home/u/proj'')
           always_available ''/tmp/tmpk3'' 0 ''/home/u/proj/app.py'' ''new'' None example_fs of
      (r, ctx, fs1) \<Rightarrow>
        shadow_status_success r
        \<and> fs_files example_fs ''/home/u/proj/app.py'' = Some ''old''
        \<and> fs_files fs1 ''/home/u/proj/app.py'' = Some ''new'')"
  by code_simp

text \<open>
  C3. The claim: a failure of the diagnostic collaborator is reported as an error
  outcome, never as a pass. When no language server can be created,
  \<open>get_diagnostics\<close> returns its error result with an empty list of diagnostics, and
  \<open>validate_code_in_shadow_workspace\<close> reads only that list: it reports success and
  a valid change.
\<close>

theorem shadow_validation_passes_without_server:
  "fst (get_diagnostics (LSPTool_init ''/tmp/tmpk3'' ''/tmp/tmpk3'') never_available
          example_fs 0 ''app.py'' (Some ''x = 1'') None)
     = DiagnosticsError (NoLanguageServer ''.py'')
   \<and> fst (validate_code_in_shadow_workspace (LSPTool_init ''/'' ''/home/u/proj'')
            never_available ''/tmp/tmpk3'' 0 ''app.py'' ''x = 1'' None example_fs)
     = ShadowSuccess True 0 0 [] ''/tmp/tmpk3''"
  by code_simp

lemma is_warning_diag_eq: "is_warning_diag = (\<lambda>d. d_severity d = SevNum 2)"
  by (simp add: fun_eq_iff is_warning_diag_def)

text \<open>
  C4. The lines that classify the diagnostics return the success result for every
  result of \<open>get_diagnostics\<close>, and its verdict is valid exactly when no diagnostic
  of the list has the error severity 1, whatever the number of warnings. For the
  call as a whole: the source's list of diagnostics is always empty, so the call
  reports the pass verdict whenever its two writes into the temporary directory
  succeed, and an error outcome, with no list of diagnostics, when they do not.
\<close>

theorem shadow_valid_iff_no_error_diagnostic:
  "fst (validation_report temp_workspace now file_path diagnostics_result tool_context)
     = ShadowSuccess (\<forall>d \<in> set (result_diagnostics diagnostics_result). d_severity d \<noteq> SevNum 1)
         (length (filter (\<lambda>d. d_severity d = SevNum 1) (result_diagnostics diagnostics_result)))
         (length (filter (\<lambda>d. d_severity d = SevNum 2) (result_diagnostics diagnostics_result)))
         (result_diagnostics diagnostics_result) temp_workspace
   \<and> (shadow_writes_succeed self temp_dir file_path new_content fs
        \<longrightarrow> fst (validate_code_in_shadow_workspace self coll temp_dir now file_path
                   new_content ctx fs)
            = ShadowSuccess True 0 0 [] temp_dir)
   \<and> (\<not> shadow_writes_succeed self temp_dir file_path new_content fs
        \<longrightarrow> \<not> shadow_status_success
                 (fst (validate_code_in_shadow_workspace self coll temp_dir now file_path
                         new_content ctx fs)))"
proof (intro conjI impI)
  show "fst (validation_report temp_workspace now file_path diagnostics_result tool_context)
     = ShadowSuccess (\<forall>d \<in> set (result_diagnostics diagnostics_result). d_severity d \<noteq> SevNum 1)
         (length (filter (\<lambda>d. d_severity d = SevNum 1) (result_diagnostics diagnostics_result)))
         (length (filter (\<lambda>d. d_severity d = SevNum 2) (result_diagnostics diagnostics_result)))
         (result_diagnostics diagnostics_result) temp_workspace"
    by (simp add: validation_report_def Let_def is_error_diag_eq is_warning_diag_eq)
next
  assume "shadow_writes_succeed self temp_dir file_path new_content fs"
  then show "fst (validate_code_in_shadow_workspace self coll temp_dir now file_path
                   new_content ctx fs) = ShadowSuccess True 0 0 [] temp_dir"
    unfolding shadow_writes_succeed_def validate_code_in_shadow_workspace_def Let_def
    by (auto simp: case_prod_beta validation_report_def Let_def get_diagnostics_with_content
        split: sum.splits)
next
  assume "\<not> shadow_writes_succeed self temp_dir file_path new_content fs"
  then show "\<not> shadow_status_success
                 (fst (validate_code_in_shadow_workspace self coll temp_dir now file_path
                         new_content ctx fs))"
    unfolding shadow_writes_succeed_def validate_code_in_shadow_workspace_def Let_def
    by (auto simp: shadow_failure_def split: sum.splits)
qed

theorem shadow_valid_iff_no_error_diagnostic_witness:
  "fst (validation_report ''/tmp/tmpk3'' 0 ''app.py''
          (DiagnosticsSuccess ''app.py'' (map format_diagnostic [warning_diag, warning_diag]) 2 0 2)
          None)
     = ShadowSuccess True 0 2 (map format_diagnostic [warning_diag, warning_diag]) ''/tmp/tmpk3''
   \<and> fst (validation_report ''/tmp/tmpk3'' 0 ''app.py''
          (DiagnosticsSuccess ''app.py''
             (map format_diagnostic [warning_diag, error_diag, warning_diag]) 3 1 2)
          None)
     = ShadowSuccess False 1 2
         (map format_diagnostic [warning_diag, error_diag, warning_diag]) ''/tmp/tmpk3''
   \<and> shadow_writes_succeed (LSPTool_init ''/'' ''/home/u/proj'') ''/tmp/tmpk3'' ''app.py''
         ''x = 1'' example_fs
   \<and> fst (validate_code_in_shadow_workspace (LSPTool_init ''/'' ''/home/u/proj'')
            always_available ''/tmp/tmpk3'' 0 ''app.py'' ''x = 1'' None example_fs)
     = ShadowSuccess True 0 0 [] ''/tmp/tmpk3''
   \<and> \<not> shadow_writes_succeed (LSPTool_init ''/'' ''/home/u/proj'') ''/tmp/tmpk3'' ''''
         ''x = 1'' example_fs
   \<and> \<not> shadow_status_success
         (fst (validate_code_in_shadow_workspace (LSPTool_init ''/'' ''/home/u/proj'')
                 always_available ''/tmp/tmpk3'' 0 '''' ''x = 1'' None example_fs))"
proof -
  have ok: "shadow_writes_succeed (LSPTool_init ''/'' ''/home/u/proj'') ''/tmp/tmpk3'' ''app.py''
         ''x = 1'' example_fs"
    by code_simp
  have ko: "\<not> shadow_writes_succeed (LSPTool_init ''/'' ''/home/u/proj'') ''/tmp/tmpk3'' ''''
         ''x = 1'' example_fs"
    by code_simp
  have sev: "d_severity (format_diagnostic warning_diag) = SevNum 2"
    "d_severity (format_diagnostic error_diag) = SevNum 1"
    by (simp_all add: format_diagnostic_def warning_diag_def error_diag_def)
  note w = shadow_valid_iff_no_error_diagnostic
    [where temp_workspace = "''/tmp/tmpk3''" and now = 0 and file_path = "''app.py''"
       and diagnostics_result =
         "DiagnosticsSuccess ''app.py'' (map format_diagnostic [warning_diag, warning_diag]) 2 0 2"
       and tool_context = None and self = "LSPTool_init ''/'' ''/home/u/proj''"
       and temp_dir = "''/tmp/tmpk3''" and new_content = "''x = 1''" and fs = example_fs
       and coll = always_available and ctx = None]
  note e = shadow_valid_iff_no_error_diagnostic
    [where temp_workspace = "''/tmp/tmpk3''" and now = 0 and file_path = "''app.py''"
       and diagnostics_result =
         "DiagnosticsSuccess ''app.py''
            (map format_diagnostic [warning_diag, error_diag, warning_diag]) 3 1 2"
       and tool_context = None and self = "LSPTool_init ''/'' ''/home/u/proj''"
       and temp_dir = "''/tmp/tmpk3''" and new_content = "''x = 1''" and fs = example_fs
       and coll = always_available and ctx = None]
  note n = shadow_valid_iff_no_error_diagnostic
    [where temp_workspace = "''/tmp/tmpk3''" and now = 0 and file_path = "''''"
       and diagnostics_result = "DiagnosticsError (NoLanguageServer [])"
       and tool_context = None and self = "LSPTool_init ''/'' ''/home/u/proj''"
       and temp_dir = "''/tmp/tmpk3''" and new_content = "''x = 1''" and fs = example_fs
       and coll = always_available and ctx = None]
  from w e n ok ko show ?thesis
    by (simp add: sev)
qed

section \<open>Rate limiting of searches\<close>

text \<open>
  C5. The claim: of 21 clean queries within one 60-second window the first 20 are
  allowed and the 21st is rate limited. The code counts the entries already in the
  log and rejects when there are more than 20 of them, so the 21st query, which
  finds 20, is allowed: here 21 queries arrive one second apart and all return
  \<open>None\<close>; it is the 22nd, one second later, that is rate limited.
\<close>

theorem twenty_first_search_is_allowed:
  "\<exists>st1 st2.
      search_session ''semantic_search_tool''
          (map (\<lambda>t. (t, ''auth'')) (map (\<lambda>k. int k * 1000000) [0..<21])) empty_sec_state
        = Inr (replicate 21 None, st1)
      \<and> validate_search_operations 21000000 ''semantic_search_tool''
            [(''query'', PStr ''auth'')] st1
        = Inr (Some (RateLimitedResult ''semantic_search_tool''), st2)"
proof -
  let ?ts = "map (\<lambda>k. int k * 1000000) [0..<21]"
  have "length (search_security_log empty_sec_state) + length ?ts \<le> 21"
    by (simp add: empty_sec_state_def)
  from search_session_log [OF auth_is_clean this, of "''semantic_search_tool''"]
  obtain st1 where run: "search_session ''semantic_search_tool''
        (map (\<lambda>t. (t, ''auth'')) ?ts) empty_sec_state = Inr (replicate (length ?ts) None, st1)"
    and log: "map se_timestamp (search_security_log st1)
                = map se_timestamp (search_security_log empty_sec_state) @ ?ts"
    by blast
  have recent: "filter (\<lambda>entry. timedelta_seconds (21000000 - se_timestamp entry) < 60)
                  (search_security_log st1) = search_security_log st1"
  proof (rule filter_True, rule ballI)
    fix entry assume "entry \<in> set (search_security_log st1)"
    then have "se_timestamp entry \<in> set (map se_timestamp (search_security_log st1))"
      by simp
    then have "se_timestamp entry \<in> set ?ts"
      by (simp add: log empty_sec_state_def)
    then obtain k where "k < 21" and "se_timestamp entry = int k * 1000000"
      by auto
    then show "timedelta_seconds (21000000 - se_timestamp entry) < 60"
      by (simp add: timedelta_seconds_def)
  qed
  have "length (search_security_log st1) = 21"
    using arg_cong [OF log, of length] by (simp add: empty_sec_state_def)
  then have "20 < length (filter (\<lambda>entry. timedelta_seconds (21000000 - se_timestamp entry) < 60)
                            (search_security_log st1))"
    by (simp add: recent)
  from search_rate_limited_step [OF auth_is_clean this] run show ?thesis
    by auto
qed

section \<open>Freshness of the index\<close>

text \<open>
  C6, the claim as stated: with an empty set of indexed files the freshness check
  never answers fresh. It fails by design: the check compares the indexed files
  with the current ones, and two empty sets are equal. Right after indexing a
  project with no qualifying file the answer is fresh.
\<close>

theorem empty_index_of_empty_project_is_fresh:
  "indexed_files (snd (index_codebase_tool 0 (Inr empty_index_result) empty_index_state)) = []
   \<and> fresh (check_index_freshness_tool example_env 5000000 (Inr [])
              (snd (index_codebase_tool 0 (Inr empty_index_result) empty_index_state)))"
  by code_simp

text \<open>
  Under a root with no ignored name among its own components, the current files
  of the check are empty exactly when the walk meets no qualifying file.
\<close>

lemma current_files_empty_iff:
  assumes "\<forall>ignore_dir \<in> set ignore_dirs. ignore_dir \<notin> set (pure_parts root_dir)"
  shows "(current_files root_dir entries = []) = (\<forall>rel \<in> set entries. \<not> qualifies rel)"
proof
  assume empty: "current_files root_dir entries = []"
  show "\<forall>rel \<in> set entries. \<not> qualifies rel"
  proof (rule ballI, rule notI)
    fix rel assume rel: "rel \<in> set entries" and q: "qualifies rel"
    from q obtain ext where ext: "ext \<in> set code_extensions" "endswith (last rel) ext"
      and ne: "rel \<noteq> []" and ig: "\<forall>ignore_dir \<in> set ignore_dirs. ignore_dir \<notin> set rel"
      by (auto simp: qualifies_def)
    let ?found = "concat (map (\<lambda>ext. filter (\<lambda>rel. rel \<noteq> [] \<and> endswith (last rel) ext) entries)
                            code_extensions)"
    from rel ext ne have "rel \<in> set ?found" by auto
    moreover from ig assms
    have "\<not> (\<exists>ignore_dir \<in> set ignore_dirs. ignore_dir \<in> set (pure_parts root_dir @ rel))"
      by auto
    ultimately have "join_sep ''/'' rel \<in> set (current_files root_dir entries)"
      unfolding current_files_def Let_def by simp
    with empty show False by simp
  qed
next
  assume none: "\<forall>rel \<in> set entries. \<not> qualifies rel"
  have "filter (\<lambda>rel. \<not> (\<exists>ignore_dir \<in> set ignore_dirs.
                           ignore_dir \<in> set (pure_parts root_dir @ rel)))
          (concat (map (\<lambda>ext. filter (\<lambda>rel. rel \<noteq> [] \<and> endswith (last rel) ext) entries)
                     code_extensions)) = []"
    using none by (auto simp: filter_empty_conv qualifies_def)
  then show "current_files root_dir entries = []"
    by (simp add: current_files_def Let_def)
qed

text \<open>
  C6, amended. Let the set of indexed files be empty, and let no component of the
  project root's own path be an ignored directory name. Then the freshness check
  answers fresh exactly when an index status with a readable time stamp of at most
  24 hours ago is recorded, the project could be walked, and the walk meets no
  qualifying file. So it is never fresh without a recorded index status, and never
  fresh while a qualifying file exists.
\<close>

theorem fresh_with_empty_index_iff:
  assumes "indexed_files st = []"
    and "\<forall>ignore_dir \<in> set ignore_dirs.
           ignore_dir \<notin> set (pure_parts (case ADK_PROJECT_ROOT e of None \<Rightarrow> cwd e | Some r \<Rightarrow> r))"
  shows "fresh (check_index_freshness_tool e now tree st) =
           (\<exists>status t entries.
               index_status st = Some status \<and> last_indexed status = Some (IsoTime t)
               \<and> now - t \<le> staleness_threshold \<and> tree = Inr entries
               \<and> (\<forall>rel \<in> set entries. \<not> qualifies rel))"
proof -
  let ?root = "case ADK_PROJECT_ROOT e of None \<Rightarrow> cwd e | Some r \<Rightarrow> r"
  have "fresh (check_index_freshness_tool e now tree st) =
           (\<exists>status t entries.
               index_status st = Some status \<and> last_indexed status = Some (IsoTime t)
               \<and> now - t \<le> staleness_threshold \<and> tree = Inr entries
               \<and> current_files ?root entries = [])"
    by (auto simp: check_index_freshness_tool_def Let_def assms(1)
        split: option.splits timestamp_text.splits sum.splits)
  then show ?thesis
    by (simp add: current_files_empty_iff [OF assms(2)])
qed

theorem fresh_with_empty_index_iff_witness:
  "indexed_files (snd (index_codebase_tool 0 (Inr empty_index_result) empty_index_state)) = []
   \<and> fresh (check_index_freshness_tool example_env 5000000 (Inr [[''README.txt'']])
              (snd (index_codebase_tool 0 (Inr empty_index_result) empty_index_state)))
   \<and> \<not> fresh (check_index_freshness_tool example_env 5000000 (Inr [[''app.py'']])
                (snd (index_codebase_tool 0 (Inr empty_index_result) empty_index_state)))"
proof -
  let ?st = "snd (index_codebase_tool 0 (Inr empty_index_result) empty_index_state)"
  have h: "indexed_files ?st = []"
    by (simp add: index_codebase_tool_def empty_index_result_def Let_def)
  have r: "\<forall>ignore_dir \<in> set ignore_dirs.
             ignore_dir \<notin> set (pure_parts (case ADK_PROJECT_ROOT example_env of
                                              None \<Rightarrow> cwd example_env | Some r \<Rightarrow> r))"
    by code_simp
  have q: "qualifies [''app.py'']" "\<not> qualifies [''README.txt'']"
    by code_simp+
  have s: "index_status ?st = Some \<lparr>last_indexed = Some (IsoTime 0), files_count = 0,
                                    elements_count = 0, has_errors = False\<rparr>"
    by (simp add: index_codebase_tool_def empty_index_result_def Let_def)
  from fresh_with_empty_index_iff [OF h r, of 5000000 "Inr [[''README.txt'']]"]
       fresh_with_empty_index_iff [OF h r, of 5000000 "Inr [[''app.py'']]"] h q s
  show ?thesis
    by (simp add: staleness_threshold_def)
qed

section \<open>Search without an index\<close>

text \<open>
  C7. A search on a tool that has no code collection returns the error result
  with the message "No code index found. Please run indexing first.": its status
  is not success, and it carries no results.
\<close>

theorem semantic_search_without_index:
  assumes "code_collection self = None"
  shows "fst (semantic_search self now query max_results file_type_filter tool_context)
           = SearchError NoCodeIndexFound
         \<and> \<not> status_success
               (fst (semantic_search self now query max_results file_type_filter tool_context))"
  using assms by (simp add: semantic_search_def)

theorem semantic_search_without_index_witness:
  "code_collection (VectorSearchTool_init Map.empty) = None
   \<and> fst (semantic_search (VectorSearchTool_init Map.empty) 0 ''password validation'' 3 None None)
       = SearchError NoCodeIndexFound"
proof -
  have h: "code_collection (VectorSearchTool_init Map.empty) = None"
    by (rule no_collection_after_init) simp
  from semantic_search_without_index [OF h] h show ?thesis by blast
qed

section \<open>The logs of the session state\<close>

text \<open>
  C8. The claim: every log of the session state is cut to its last N entries on
  every append. \<open>_log_file_operation\<close> stores the list as it is: after any run of
  logged file operations the file-operations log has grown by the number of
  operations, so 101 reads from an empty log leave 101 entries, where the security
  log and the search log are cut to 100 and 50.
\<close>

theorem file_operations_log_grows_without_bound:
  "length (file_operations_log (log_file_operations calls st))
     = length (file_operations_log st) + length calls"
  by (induction calls arbitrary: st) (auto simp: log_file_operation_def Let_def)

section \<open>The audit of file operations\<close>

text \<open>
  C9. The claim: every call appends one entry to the security log and each of the
  three counters goes up by one with its outcome. A blocked call logs its entry
  and returns before the counters are read: the path \<open>/etc/passwd\<close> is blocked, and
  the counters of the state, the blocked one among them, are what they were.
\<close>

theorem blocked_operation_leaves_counters:
  "fst (validate_file_operations example_env now tool_name
          [(''file_path'', PStr ''/etc/passwd'')] st)
     = Some (BlockedResult [DangerousPathPattern ''/etc/'', OutsideProject] tool_name)
   \<and> security_counters (snd (validate_file_operations example_env now tool_name
          [(''file_path'', PStr ''/etc/passwd'')] st))
     = security_counters st"
  by (simp add: validate_file_operations_def example_env_def Let_def etc_passwd_verdict)

text \<open>
  C10. The claim: without a \<open>file_path\<close> the call is recorded as allowed. When no
  content is given either, nothing was validated and the entry holds \<open>None\<close> under
  \<open>"validation_result"\<close>; the counter update calls \<open>.get\<close> on it and raises. The
  callback returns its error result, which stops the tool, and the log receives the
  entry twice, both with the action \<open>error\<close>. The same happens for an empty path.
\<close>

theorem operation_without_path_and_content_errors:
  "fst (validate_file_operations e now tool_name [] st)
     = Some (ErrorResult AttributeError tool_name)
   \<and> security_log (snd (validate_file_operations e now tool_name [] st))
     = last_n 100 (security_log st @ replicate 2
         \<lparr>oe_timestamp = now, oe_tool = tool_name, oe_args = [],
          oe_validation_result = None, oe_action = Errored, oe_error = Some AttributeError\<rparr>)
   \<and> fst (validate_file_operations e now tool_name [(''file_path'', PStr [])] st)
     = Some (ErrorResult AttributeError tool_name)"
  by (simp add: validate_file_operations_def content_step_def allow_exit_def
        error_exit_def Let_def numeral_2_eq_2)


end
